theory Spec2Isabelle
  imports Main
begin

section \<open>Values, errors and the analysis state\<close>

text \<open>
  The checker is a Python visitor over an ANTLR parse tree.  Python values that flow
  through it are: \<open>None\<close>, strings (type names), the symbol-table entry
  \<open>{"type": t, "line": l}\<close> (a dictionary), and parse-tree nodes (compared
  and hashed by identity, here a number).
\<close>

type_synonym entry = "string \<times> int option"

datatype pyval =
    PNone
  | PStr string
  | PDict entry
  | PCtx nat

text \<open>
  Every \<open>raise Exception(f"...")\<close> of the source is one constructor, carrying the
  values its message interpolates; \<open>AttributeError\<close> and \<open>TypeError\<close>
  are raised by the Python runtime itself.
\<close>

datatype error =
    InvalidNameSigil string "int option" "int option"
  | InvalidNamePattern string "int option" "int option"
  | VariableAlreadyDeclared string
  | TypeMismatchDeclaration pyval string string "int option" "int option"
  | VariableNotDeclared string "int option" "int option"
  | TypeMismatchAssignment pyval pyval string "int option" "int option"
  | MethodAlreadyDeclared string "int option" "int option"
  | TypeMismatchReturn "int option" "int option" string pyval
  | ClassAlreadyDeclared string "int option" "int option"
  | TypeMismatchAdditive "int option" "int option" pyval pyval
  | TypeMismatchMultiplicative "int option" "int option" pyval pyval
  | UnsupportedTerm string
  | UnsupportedLiteral string
  | CannotShowNone "int option" "int option"
  | AttributeError string
  | TypeError string

text \<open>The error taxonomy of the specification (section 7), by raise site.\<close>

datatype error_kind =
    InvalidNameError
  | RedeclarationError
  | UndeclaredVariableError
  | TypeMismatchError
  | InvalidOperationError
  | UnsupportedConstructError
  | PythonRuntimeError

fun kind_of :: "error \<Rightarrow> error_kind" where
  "kind_of (InvalidNameSigil _ _ _) = InvalidNameError"
| "kind_of (InvalidNamePattern _ _ _) = InvalidNameError"
| "kind_of (VariableAlreadyDeclared _) = RedeclarationError"
| "kind_of (TypeMismatchDeclaration _ _ _ _ _) = TypeMismatchError"
| "kind_of (VariableNotDeclared _ _ _) = UndeclaredVariableError"
| "kind_of (TypeMismatchAssignment _ _ _ _ _) = TypeMismatchError"
| "kind_of (MethodAlreadyDeclared _ _ _) = RedeclarationError"
| "kind_of (TypeMismatchReturn _ _ _ _) = TypeMismatchError"
| "kind_of (ClassAlreadyDeclared _ _ _) = RedeclarationError"
| "kind_of (TypeMismatchAdditive _ _ _ _) = TypeMismatchError"
| "kind_of (TypeMismatchMultiplicative _ _ _ _) = TypeMismatchError"
| "kind_of (UnsupportedTerm _) = UnsupportedConstructError"
| "kind_of (UnsupportedLiteral _) = UnsupportedConstructError"
| "kind_of (CannotShowNone _ _) = InvalidOperationError"
| "kind_of (AttributeError _) = PythonRuntimeError"
| "kind_of (TypeError _) = PythonRuntimeError"

text \<open>What \<open>print\<close> writes: one record per call.\<close>

datatype stdout_line =
    Output pyval
  | Warning string "int option"

text \<open>
  The attributes of the \<open>TypeChecker\<close> object, and the lines printed so far.  A
  Python dictionary keeps its keys in insertion order, so the symbol table is an
  association list.  \<open>inheritance_map\<close> is \<open>None\<close> while the attribute
  has never been assigned; the values the source stores in it are parse-tree nodes
  (\<open>Some i\<close>, the node's identity) or Python's \<open>None\<close>.
\<close>

record state =
  symbol_table :: "(string \<times> entry) list"
  used_variables :: "string set"
  inheritance_map :: "(string \<times> nat option) list option"
  printed :: "stdout_line list"

text \<open>\<open>__init__\<close>: the symbol table and the used set; nothing else is assigned.\<close>

definition init :: state where
  "init = \<lparr>symbol_table = [], used_variables = {}, inheritance_map = None, printed = []\<rparr>"

text \<open>\<open>d[k] = v\<close>: an existing key keeps its place, a new key goes last.\<close>

fun dict_set :: "'k \<Rightarrow> 'v \<Rightarrow> ('k \<times> 'v) list \<Rightarrow> ('k \<times> 'v) list" where
  "dict_set k v [] = [(k, v)]"
| "dict_set k v (p # ps) = (if fst p = k then (k, v) # ps else p # dict_set k v ps)"

text \<open>\<open>ctx.start\<close> is a token with a line and a column, or \<open>None\<close>.\<close>

type_synonym token = "int \<times> int"

definition get_line_info :: "token option \<Rightarrow> int option \<times> int option" where
  "get_line_info start =
     ((case start of Some t \<Rightarrow> Some (fst t) | None \<Rightarrow> None),
      (case start of Some t \<Rightarrow> Some (snd t) | None \<Rightarrow> None))"

definition markVariableAsUsed :: "string \<Rightarrow> state \<Rightarrow> state" where
  "markVariableAsUsed var_name s = s\<lparr>used_variables := insert var_name (used_variables s)\<rparr>"

section \<open>Name validation\<close>

text \<open>
  \<open>re.compile(r"^[a-zA-Z_][a-zA-Z0-9_]*$").match\<close>: one character of the first
  class, then characters of the second class up to the end of the string; Python's
  \<open>$\<close> also matches just before a newline that ends the string.
\<close>

definition first_class :: "char \<Rightarrow> bool" where
  "first_class c = (c \<in> set ''abcdefghijklmnopqrstuvwxyzABCDEFGHIJKLMNOPQRSTUVWXYZ_'')"

definition rest_class :: "char \<Rightarrow> bool" where
  "rest_class c = (c \<in> set ''abcdefghijklmnopqrstuvwxyzABCDEFGHIJKLMNOPQRSTUVWXYZ0123456789_'')"

fun valid_variable_pattern_match :: "string \<Rightarrow> bool" where
  "valid_variable_pattern_match [] = False"
| "valid_variable_pattern_match (c # cs) =
     (first_class c \<and>
      (dropWhile rest_class cs = [] \<or> dropWhile rest_class cs = [CHR 0x0A]))"

definition startswith_sigil :: "string \<Rightarrow> bool" where
  "startswith_sigil var_name = (case var_name of [] \<Rightarrow> False | c # _ \<Rightarrow> c = CHR ''$'')"

section \<open>Type compatibility\<close>

text \<open>
  \<open>self.inheritance_map.get(current_type, None)\<close>: a string is looked up, a
  parse-tree node is hashable but never a key, a dictionary is unhashable.
\<close>

fun inheritance_get :: "(string \<times> nat option) list \<Rightarrow> pyval \<Rightarrow> error + pyval" where
  "inheritance_get m (PStr k) =
     (case map_of m k of
        None \<Rightarrow> Inr PNone
      | Some None \<Rightarrow> Inr PNone
      | Some (Some i) \<Rightarrow> Inr (PCtx i))"
| "inheritance_get m (PCtx i) = Inr PNone"
| "inheritance_get m PNone = Inr PNone"
| "inheritance_get m (PDict d) = Inl (TypeError ''unhashable type: dict'')"

text \<open>The \<open>while current_type is not None\<close> loop, then \<open>return False\<close>.\<close>

function inheritance_walk :: "(string \<times> nat option) list \<Rightarrow> pyval \<Rightarrow> pyval \<Rightarrow> error + bool" where
  "inheritance_walk m declared_type current_type =
     (if current_type = PNone then Inr False
      else if current_type = declared_type then Inr True
      else (case inheritance_get m current_type of
              Inl e \<Rightarrow> Inl e
            | Inr next_type \<Rightarrow> inheritance_walk m declared_type next_type))"
  by pat_completeness auto
termination
proof (relation "measure (\<lambda>(m, d, c). case c of PStr _ \<Rightarrow> 2 | PCtx _ \<Rightarrow> 1 | _ \<Rightarrow> 0)")
  show "wf (measure (\<lambda>(m, d, c). case c of PStr _ \<Rightarrow> 2 | PCtx _ \<Rightarrow> 1 | _ \<Rightarrow> (0::nat)))"
    by simp
next
  fix m :: "(string \<times> nat option) list" and declared_type current_type x2 :: pyval
  assume "current_type \<noteq> PNone" and "inheritance_get m current_type = Inr x2"
  then show "((m, declared_type, x2), (m, declared_type, current_type))
      \<in> measure (\<lambda>(m, d, c). case c of PStr _ \<Rightarrow> 2 | PCtx _ \<Rightarrow> 1 | _ \<Rightarrow> (0::nat))"
    by (cases current_type) (auto split: option.splits)
qed

text \<open>\<open>declared_type in self.inheritance_map\<close>: the key is hashed first.\<close>

fun inheritance_contains :: "(string \<times> nat option) list \<Rightarrow> pyval \<Rightarrow> error + bool" where
  "inheritance_contains m (PStr k) = Inr (map_of m k \<noteq> None)"
| "inheritance_contains m (PCtx i) = Inr False"
| "inheritance_contains m PNone = Inr False"
| "inheritance_contains m (PDict d) = Inl (TypeError ''unhashable type: dict'')"

definition is_type_compatible :: "pyval \<Rightarrow> pyval \<Rightarrow> state \<Rightarrow> error + bool" where
  "is_type_compatible declared_type expr_type s =
     (if declared_type = expr_type then Inr True
      else (case inheritance_map s of
              None \<Rightarrow> Inl (AttributeError ''inheritance_map'')
            | Some m \<Rightarrow>
                (case inheritance_contains m declared_type of
                   Inl e \<Rightarrow> Inl e
                 | Inr True \<Rightarrow> inheritance_walk m declared_type expr_type
                 | Inr False \<Rightarrow> Inr False)))"

section \<open>The parse tree\<close>

text \<open>
  Modelled from the spec: the generated parser and base visitor
  (\<open>TypeCheckerParser\<close>, \<open>TypeCheckerVisitor\<close>) are not among the
  sources.  The tree is "a traversable tree with source-position annotations" whose
  nodes expose "the syntactic children needed for traversal": here, what the accessors
  that the checker calls return.  A literal and a term are one alternative each, in the
  order in which \<open>visitLiteral\<close> and \<open>visitTerm\<close> test the accessors;
  \<open>OtherLiteral\<close> and \<open>OtherTerm\<close> (with the node's text) are the shapes
  for which every accessor is empty.  An additive or multiplicative node has at least
  one operand.  \<open>tree\<close> is a node for which the checker overrides no visitor
  method (class field access, class method access, class creation), which "delegates to
  its sub-visitors": the base visitor visits the children in order and returns the last
  child's result, \<open>None\<close> for a token or a node without children.
\<close>

datatype literal =
    ChunkLiteral
  | FractionLiteral
  | StringLiteral
  | OtherLiteral string

datatype tm =
    VariableName "token option" string
  | Literal literal
  | ClassVariableAccess "tree list"
  | ClassMethodAccess "tree list"
  | Parenthesized expression
  | OtherTerm string
and multiplicativeExpression =
    MultiplicativeExpression "token option" tm "tm list"
and additiveExpression =
    AdditiveExpression "token option" multiplicativeExpression "multiplicativeExpression list"
and expression =
    Expression additiveExpression
and tree =
    Terminal
  | Rule "tree list"
  | ExpressionNode expression

section \<open>Expression type inference\<close>

text \<open>
  A visitor method takes the node and the state, and returns the state it leaves
  behind together with either the exception it raised or the value it returned.
\<close>

type_synonym 'a result = "(error + 'a) \<times> state"

fun visitLiteral :: "literal \<Rightarrow> error + pyval" where
  "visitLiteral ChunkLiteral = Inr (PStr ''chunk'')"
| "visitLiteral FractionLiteral = Inr (PStr ''fraction'')"
| "visitLiteral StringLiteral = Inr (PStr ''string'')"
| "visitLiteral (OtherLiteral node_text) = Inl (UnsupportedLiteral node_text)"

fun visitExpression :: "expression \<Rightarrow> state \<Rightarrow> pyval result"
  and visitAdditiveExpression :: "additiveExpression \<Rightarrow> state \<Rightarrow> pyval result"
  and additive_loop ::
    "token option \<Rightarrow> pyval \<Rightarrow> multiplicativeExpression list \<Rightarrow> state \<Rightarrow> pyval result"
  and visitMultiplicativeExpression :: "multiplicativeExpression \<Rightarrow> state \<Rightarrow> pyval result"
  and multiplicative_loop :: "token option \<Rightarrow> pyval \<Rightarrow> tm list \<Rightarrow> state \<Rightarrow> pyval result"
  and visitTerm :: "tm \<Rightarrow> state \<Rightarrow> pyval result"
  and visitTree :: "tree \<Rightarrow> state \<Rightarrow> pyval result"
  and visitChildren :: "pyval \<Rightarrow> tree list \<Rightarrow> state \<Rightarrow> pyval result"
where
  "visitExpression (Expression a) s = visitAdditiveExpression a s"
| "visitAdditiveExpression (AdditiveExpression start m []) s =
     visitMultiplicativeExpression m s"
| "visitAdditiveExpression (AdditiveExpression start m (m' # ms)) s =
     (case visitMultiplicativeExpression m s of
        (Inl e, s1) \<Rightarrow> (Inl e, s1)
      | (Inr left_type, s1) \<Rightarrow> additive_loop start left_type (m' # ms) s1)"
| "additive_loop start left_type [] s = (Inr left_type, s)"
| "additive_loop start left_type (m # ms) s =
     (case visitMultiplicativeExpression m s of
        (Inl e, s1) \<Rightarrow> (Inl e, s1)
      | (Inr right_type, s1) \<Rightarrow>
          (let left_type' =
                 (if left_type = PStr ''chunk'' \<and> right_type = PStr ''fraction''
                  then PStr ''fraction'' else left_type);
               right_type' =
                 (if left_type = PStr ''chunk'' \<and> right_type = PStr ''fraction''
                  then right_type
                  else if left_type = PStr ''fraction'' \<and> right_type = PStr ''chunk''
                  then PStr ''fraction'' else right_type)
           in if left_type' \<noteq> right_type'
              then (Inl (TypeMismatchAdditive (fst (get_line_info start))
                           (snd (get_line_info start)) left_type' right_type'), s1)
              else additive_loop start left_type' ms s1))"
| "visitMultiplicativeExpression (MultiplicativeExpression start t []) s = visitTerm t s"
| "visitMultiplicativeExpression (MultiplicativeExpression start t (t' # ts)) s =
     (case visitTerm t s of
        (Inl e, s1) \<Rightarrow> (Inl e, s1)
      | (Inr left_type, s1) \<Rightarrow> multiplicative_loop start left_type (t' # ts) s1)"
| "multiplicative_loop start left_type [] s = (Inr left_type, s)"
| "multiplicative_loop start left_type (t # ts) s =
     (case visitTerm t s of
        (Inl e, s1) \<Rightarrow> (Inl e, s1)
      | (Inr right_type, s1) \<Rightarrow>
          (let left_type' =
                 (if left_type = PStr ''chunk'' \<and> right_type = PStr ''fraction''
                  then PStr ''fraction'' else left_type);
               right_type' =
                 (if left_type = PStr ''chunk'' \<and> right_type = PStr ''fraction''
                  then right_type
                  else if left_type = PStr ''fraction'' \<and> right_type = PStr ''chunk''
                  then PStr ''fraction'' else right_type)
           in if left_type' \<noteq> right_type'
              then (Inl (TypeMismatchMultiplicative (fst (get_line_info start))
                           (snd (get_line_info start)) left_type' right_type'), s1)
              else multiplicative_loop start left_type' ts s1))"
| "visitTerm (VariableName start var_name) s =
     (case map_of (symbol_table s) var_name of
        None \<Rightarrow>
          (Inl (VariableNotDeclared var_name (fst (get_line_info start))
                  (snd (get_line_info start))), s)
      | Some info \<Rightarrow> (Inr (PStr (fst info)), markVariableAsUsed var_name s))"
| "visitTerm (Literal l) s = (visitLiteral l, s)"
| "visitTerm (ClassVariableAccess children) s = visitChildren PNone children s"
| "visitTerm (ClassMethodAccess children) s = visitChildren PNone children s"
| "visitTerm (Parenthesized e) s = visitExpression e s"
| "visitTerm (OtherTerm node_text) s = (Inl (UnsupportedTerm node_text), s)"
| "visitTree Terminal s = (Inr PNone, s)"
| "visitTree (Rule children) s = visitChildren PNone children s"
| "visitTree (ExpressionNode e) s = visitExpression e s"
| "visitChildren result_so_far [] s = (Inr result_so_far, s)"
| "visitChildren result_so_far (c # cs) s =
     (case visitTree c s of
        (Inl e, s1) \<Rightarrow> (Inl e, s1)
      | (Inr childResult, s1) \<Rightarrow> visitChildren childResult cs s1)"

section \<open>Statements\<close>

text \<open>
  The source spells one accessor in two ways: \<open>type_()\<close> on a variable
  signature (lines 68 and 131) and \<open>type()\<close> on a method signature (line 125)
  and on a class field, which is a variable signature too (line 175).  A generated
  context class defines an accessor under one name only, so where \<open>type_\<close>
  exists the call of \<open>type()\<close> raises \<open>AttributeError\<close>.  Likewise
  \<open>ctx.classDeclaration().inherit()\<close> (line 155) is called on the class
  declaration itself, and raises unless that node has a nested class declaration.  A
  node carries the outcome of such a call: \<open>Missing\<close> when the call raises,
  \<open>Returns\<close> with its value when the context class defines the accessor.
\<close>

datatype 'a accessor =
    Missing
  | Returns 'a

text \<open>
  Modelled from the spec: the statement nodes of the absent parser, by the accessors
  the checker calls.  A statement node is visited by the base visitor, which passes it
  to the visitor method of its one child; it is identified with that child.  A variable
  declaration carries its name and type texts, its \<open>expression()\<close> and its
  \<open>createClassStatement()\<close> (the children of that node), each possibly absent.
  A method declaration carries its name, the outcome of \<open>methodSignature().type()\<close>
  (the return type text), the \<open>(name, type)\<close> texts of its parameter signatures,
  and its block: the statements of the block and after them its
  \<open>returnStatement()\<close> (that node's start token and expression), if any.  A
  class declaration carries its name, the outcome of
  \<open>classDeclaration().inherit()\<close> (a node, by its identity, or \<open>None\<close>),
  the text of \<open>parentClass()\<close>, its fields (the name text and the outcome of
  \<open>type()\<close>, the type text) and its methods.
\<close>

datatype statement =
    ShowStatement "token option" expression
  | VariableDeclaration "token option" string string "expression option" "tree list option"
  | Assignment "token option" string expression
  | MethodDeclarationStatement methodDeclaration
  | ClassDeclarationStatement classDeclaration
and methodDeclaration =
    MethodDeclaration "token option" string "string accessor" "(string \<times> string) list"
      "statement list" "(token option \<times> expression) option"
and classDeclaration =
    ClassDeclaration "token option" string "nat option accessor" "string option"
      "(string \<times> string accessor) list" "methodDeclaration list"

definition visitShowStatement :: "token option \<Rightarrow> expression \<Rightarrow> state \<Rightarrow> unit result" where
  "visitShowStatement start e s =
     (case visitExpression e s of
        (Inl er, s1) \<Rightarrow> (Inl er, s1)
      | (Inr expr_type, s1) \<Rightarrow>
          if expr_type = PStr ''none''
          then (Inl (CannotShowNone (fst (get_line_info start)) (snd (get_line_info start))), s1)
          else (Inr (), s1\<lparr>printed := printed s1 @ [Output expr_type]\<rparr>))"

text \<open>
  \<open>initializer = ctx.expression() or ctx.createClassStatement()\<close>, visited: the
  expression by \<open>visitExpression\<close>, the class creation by the base visitor.
\<close>

definition visitInitializer ::
  "expression option \<Rightarrow> tree list option \<Rightarrow> state \<Rightarrow> pyval result option" where
  "visitInitializer e c s =
     (case e of
        Some ex \<Rightarrow> Some (visitExpression ex s)
      | None \<Rightarrow> (case c of Some children \<Rightarrow> Some (visitChildren PNone children s) | None \<Rightarrow> None))"

definition visitVariableDeclaration ::
  "token option \<Rightarrow> string \<Rightarrow> string \<Rightarrow> expression option \<Rightarrow> tree list option \<Rightarrow> state
     \<Rightarrow> unit result" where
  "visitVariableDeclaration start var_name var_type e c s =
     (if \<not> startswith_sigil var_name
      then (Inl (InvalidNameSigil var_name (fst (get_line_info start))
                   (snd (get_line_info start))), s)
      else if \<not> valid_variable_pattern_match (drop 1 var_name)
      then (Inl (InvalidNamePattern var_name (fst (get_line_info start))
                   (snd (get_line_info start))), s)
      else if map_of (symbol_table s) var_name \<noteq> None
      then (Inl (VariableAlreadyDeclared var_name), s)
      else
        (case visitInitializer e c
                (s\<lparr>symbol_table :=
                     dict_set var_name (var_type, fst (get_line_info start)) (symbol_table s)\<rparr>) of
           None \<Rightarrow>
             (Inr (), s\<lparr>symbol_table :=
                     dict_set var_name (var_type, fst (get_line_info start)) (symbol_table s)\<rparr>)
         | Some (Inl er, s2) \<Rightarrow> (Inl er, s2)
         | Some (Inr init_type, s2) \<Rightarrow>
             if init_type \<noteq> PStr var_type
             then (Inl (TypeMismatchDeclaration init_type var_type var_name
                          (fst (get_line_info start)) (snd (get_line_info start))), s2)
             else (Inr (), s2)))"

text \<open>
  \<open>declared_type = self.symbol_table[var_name]\<close> is the whole entry, a dictionary.
\<close>

definition visitAssignment :: "token option \<Rightarrow> string \<Rightarrow> expression \<Rightarrow> state \<Rightarrow> unit result" where
  "visitAssignment start var_name e s =
     (case map_of (symbol_table s) var_name of
        None \<Rightarrow>
          (Inl (VariableNotDeclared var_name (fst (get_line_info start))
                  (snd (get_line_info start))), s)
      | Some declared_type \<Rightarrow>
          (case visitExpression e (s\<lparr>used_variables := insert var_name (used_variables s)\<rparr>) of
             (Inl er, s2) \<Rightarrow> (Inl er, s2)
           | (Inr expr_type, s2) \<Rightarrow>
               (case is_type_compatible (PDict declared_type) expr_type s2 of
                  Inl er \<Rightarrow> (Inl er, s2)
                | Inr False \<Rightarrow>
                    (Inl (TypeMismatchAssignment expr_type (PDict declared_type) var_name
                            (fst (get_line_info start)) (snd (get_line_info start))), s2)
                | Inr True \<Rightarrow> (Inr (), s2))))"

text \<open>
  The loop \<open>for param in parameters\<close> of \<open>visitMethodDeclaration\<close>:
  \<open>self.symbol_table[var_name] = {"type": var_type, "line": ctx.start.line}\<close>
  with \<open>var_type = param.type_().getText()\<close>, where \<open>ctx.start\<close> is read
  without a guard.
\<close>

fun add_parameters :: "token option \<Rightarrow> (string \<times> string) list \<Rightarrow> state \<Rightarrow> unit result" where
  "add_parameters start [] s = (Inr (), s)"
| "add_parameters start (param # params) s =
     (case start of
        None \<Rightarrow> (Inl (AttributeError ''line''), s)
      | Some t \<Rightarrow>
          add_parameters start params
            (s\<lparr>symbol_table :=
                 dict_set (fst param) (snd param, Some (fst t)) (symbol_table s)\<rparr>))"

text \<open>
  The loop \<open>for field in ctx.variableSignature()\<close> of
  \<open>visitClassDeclaration\<close>: the same assignment, but with
  \<open>var_type = field.type().getText()\<close>, which is evaluated before
  \<open>ctx.start.line\<close>.
\<close>

fun add_fields ::
  "token option \<Rightarrow> (string \<times> string accessor) list \<Rightarrow> state \<Rightarrow> unit result" where
  "add_fields start [] s = (Inr (), s)"
| "add_fields start (field # rest) s =
     (case snd field of
        Missing \<Rightarrow> (Inl (AttributeError ''type''), s)
      | Returns var_type \<Rightarrow>
          (case start of
             None \<Rightarrow> (Inl (AttributeError ''line''), s)
           | Some t \<Rightarrow>
               add_fields start rest
                 (s\<lparr>symbol_table :=
                      dict_set (fst field) (var_type, Some (fst t)) (symbol_table s)\<rparr>)))"

text \<open>
  \<open>visitStatements\<close> is the loop of \<open>visitProgram\<close> over the statements, and the
  base visitor's walk over the statements of a method block; \<open>visitMethods\<close> is the
  loop of \<open>visitClassDeclaration\<close> over its methods.  The base visitor visits a
  method block's statements and then its return statement, whose expression
  \<open>visitMethodDeclaration\<close> then visits once more.  \<open>self.visit(parent_class)\<close>
  is called on a string, which has no \<open>accept\<close>.  The return type of a method
  is read (line 125) before anything else is done, and the superclass of a class (line
  155) before the test of the class name.
\<close>

fun visitStatement :: "statement \<Rightarrow> state \<Rightarrow> unit result"
  and visitStatements :: "statement list \<Rightarrow> state \<Rightarrow> unit result"
  and visitMethodDeclaration :: "methodDeclaration \<Rightarrow> state \<Rightarrow> unit result"
  and visitMethods :: "methodDeclaration list \<Rightarrow> state \<Rightarrow> unit result"
  and visitClassDeclaration :: "classDeclaration \<Rightarrow> state \<Rightarrow> unit result"
where
  "visitStatement (ShowStatement start e) s = visitShowStatement start e s"
| "visitStatement (VariableDeclaration start var_name var_type e c) s =
     visitVariableDeclaration start var_name var_type e c s"
| "visitStatement (Assignment start var_name e) s = visitAssignment start var_name e s"
| "visitStatement (MethodDeclarationStatement md) s = visitMethodDeclaration md s"
| "visitStatement (ClassDeclarationStatement cd) s = visitClassDeclaration cd s"
| "visitStatements [] s = (Inr (), s)"
| "visitStatements (st # sts) s =
     (case visitStatement st s of
        (Inl e, s1) \<Rightarrow> (Inl e, s1)
      | (Inr _, s1) \<Rightarrow> visitStatements sts s1)"
| "visitMethodDeclaration
     (MethodDeclaration start method_name return_type_call parameters block return_statement) s =
     (case return_type_call of
        Missing \<Rightarrow> (Inl (AttributeError ''type''), s)
      | Returns return_type \<Rightarrow>
     (case add_parameters start parameters s of
        (Inl e, s1) \<Rightarrow> (Inl e, s1)
      | (Inr _, s1) \<Rightarrow>
          if map_of (symbol_table s1) method_name \<noteq> None
          then (Inl (MethodAlreadyDeclared method_name (fst (get_line_info start))
                       (snd (get_line_info start))), s1)
          else
            (case visitStatements block s1 of
               (Inl e, s2) \<Rightarrow> (Inl e, s2)
             | (Inr _, s2) \<Rightarrow>
                 (case return_statement of
                    None \<Rightarrow> (Inr (), s2)
                  | Some (return_start, return_expression) \<Rightarrow>
                      (case visitExpression return_expression s2 of
                         (Inl e, s3) \<Rightarrow> (Inl e, s3)
                       | (Inr _, s3) \<Rightarrow>
                           (case visitExpression return_expression s3 of
                              (Inl e, s4) \<Rightarrow> (Inl e, s4)
                            | (Inr return_expr_type, s4) \<Rightarrow>
                                if return_expr_type \<noteq> PStr return_type
                                then (Inl (TypeMismatchReturn
                                             (fst (get_line_info return_start))
                                             (snd (get_line_info return_start))
                                             return_type return_expr_type), s4)
                                else (Inr (), s4)))))))"
| "visitMethods [] s = (Inr (), s)"
| "visitMethods (md # mds) s =
     (case visitMethodDeclaration md s of
        (Inl e, s1) \<Rightarrow> (Inl e, s1)
      | (Inr _, s1) \<Rightarrow> visitMethods mds s1)"
| "visitClassDeclaration
     (ClassDeclaration start class_name superclass_call parent_class class_fields class_methods) s =
     (case superclass_call of
        Missing \<Rightarrow> (Inl (AttributeError ''inherit''), s)
      | Returns superclass_name \<Rightarrow>
     (if map_of (symbol_table s) class_name \<noteq> None
      then (Inl (ClassAlreadyDeclared class_name (fst (get_line_info start))
                   (snd (get_line_info start))), s)
      else
        (case inheritance_map s of
           None \<Rightarrow> (Inl (AttributeError ''inheritance_map''), s)
         | Some m \<Rightarrow>
             (case parent_class of
                Some parent_text \<Rightarrow>
                  (Inl (AttributeError ''accept''),
                   s\<lparr>inheritance_map := Some (dict_set class_name superclass_name m)\<rparr>)
              | None \<Rightarrow>
                  (case add_fields start class_fields
                          (s\<lparr>inheritance_map := Some (dict_set class_name superclass_name m)\<rparr>) of
                     (Inl e, s2) \<Rightarrow> (Inl e, s2)
                   | (Inr _, s2) \<Rightarrow> visitMethods class_methods s2)))))"

text \<open>
  \<open>visitProgram\<close>: the statements, then one warning for every entry of the symbol
  table, in its order, whose key is not in \<open>used_variables\<close>.
\<close>

definition unused_warnings :: "state \<Rightarrow> stdout_line list" where
  "unused_warnings s =
     map (\<lambda>(var, info). Warning var (snd info))
       (filter (\<lambda>(var, info). var \<notin> used_variables s) (symbol_table s))"

definition visitProgram :: "statement list \<Rightarrow> state \<Rightarrow> unit result" where
  "visitProgram statements s =
     (case visitStatements statements s of
        (Inl e, s1) \<Rightarrow> (Inl e, s1)
      | (Inr _, s1) \<Rightarrow> (Inr (), s1\<lparr>printed := printed s1 @ unused_warnings s1\<rparr>))"

section \<open>Predicates used in the statements below\<close>

text \<open>
  \<open>unchanged s s'\<close>: the tables and the printed lines of \<open>s'\<close> are those of
  \<open>s\<close>, and no variable has been unmarked.  \<open>type_value\<close>: the values a
  visit of an expression can return.  \<open>expr_error\<close>: the exceptions it can raise,
  an undeclared variable only for a name that is not in the table.
\<close>

definition unchanged :: "state \<Rightarrow> state \<Rightarrow> bool" where
  "unchanged s s' = (symbol_table s' = symbol_table s \<and> inheritance_map s' = inheritance_map s \<and> printed s' = printed s \<and> used_variables s \<subseteq> used_variables s')"

fun type_value :: "pyval \<Rightarrow> bool" where
  "type_value PNone = True"
| "type_value (PStr t) = True"
| "type_value (PDict d) = False"
| "type_value (PCtx i) = False"

fun expr_error :: "(string \<times> entry) list \<Rightarrow> error \<Rightarrow> bool" where
  "expr_error tbl (VariableNotDeclared x l c) = (map_of tbl x = None)"
| "expr_error tbl (TypeMismatchAdditive l c a b) = True"
| "expr_error tbl (TypeMismatchMultiplicative l c a b) = True"
| "expr_error tbl (UnsupportedTerm t) = True"
| "expr_error tbl (UnsupportedLiteral t) = True"
| "expr_error tbl _ = False"

definition expr_post :: "state \<Rightarrow> pyval result \<Rightarrow> bool" where
  "expr_post s r = (unchanged s (snd r) \<and>
     (case fst r of Inl e \<Rightarrow> expr_error (symbol_table s) e | Inr v \<Rightarrow> type_value v))"

text \<open>
  \<open>step_ok s s'\<close>: the keys of the symbol table stay distinct, and an inheritance
  map that was never assigned is still not assigned.
\<close>

definition step_ok :: "state \<Rightarrow> state \<Rightarrow> bool" where
  "step_ok s s' =
     ((distinct (map fst (symbol_table s)) \<longrightarrow> distinct (map fst (symbol_table s'))) \<and>
      (inheritance_map s = None \<longrightarrow> inheritance_map s' = None))"

text \<open>
  A name that passes both name checks of \<open>visitVariableDeclaration\<close>, and a
  symbol table all of whose keys are such names.
\<close>

definition valid_name :: "string \<Rightarrow> bool" where
  "valid_name var_name =
     (startswith_sigil var_name \<and> valid_variable_pattern_match (drop 1 var_name))"





text \<open>
  \<open>appended s s'\<close>: the symbol table of \<open>s'\<close> is that of \<open>s\<close>
  followed by entries whose keys are valid names that are not keys of \<open>s\<close>.
\<close>

definition appended :: "state \<Rightarrow> state \<Rightarrow> bool" where
  "appended s s' =
     (\<exists>new. symbol_table s' = symbol_table s @ new \<and>
        list_all (\<lambda>k. valid_name k \<and> map_of (symbol_table s) k = None) (map fst new))"

text \<open>
  The expression that is one literal, and the expression that is one variable
  reference, every node of it starting at the given token.
\<close>

definition literal_at :: "token \<Rightarrow> literal \<Rightarrow> expression" where
  "literal_at tok l =
     Expression (AdditiveExpression (Some tok)
       (MultiplicativeExpression (Some tok) (Literal l) []) [])"

definition variable_at :: "token \<Rightarrow> string \<Rightarrow> expression" where
  "variable_at tok x =
     Expression (AdditiveExpression (Some tok)
       (MultiplicativeExpression (Some tok) (VariableName (Some tok) x) []) [])"

section \<open>Expressions: what a visit leaves and returns\<close>

lemmas expr_induct =
  visitExpression_visitAdditiveExpression_additive_loop_visitMultiplicativeExpression_multiplicative_loop_visitTerm_visitTree_visitChildren.induct

lemma expr_post_value: "type_value v \<Longrightarrow> expr_post s (Inr v, s)"
  by (simp add: expr_post_def unchanged_def)

lemma expr_post_error: "expr_error (symbol_table s) e \<Longrightarrow> unchanged s s1 \<Longrightarrow> expr_post s (Inl e, s1)"
  by (simp add: expr_post_def)

lemma expr_post_unchanged: "expr_post s r \<Longrightarrow> unchanged s (snd r)"
  by (simp add: expr_post_def)

lemma expr_post_bind:
  assumes "expr_post s r"
    and "\<And>v s1. r = (Inr v, s1) \<Longrightarrow> type_value v \<Longrightarrow> expr_post s1 (k v s1)"
  shows "expr_post s (case r of (Inl e, s1) \<Rightarrow> (Inl e, s1) | (Inr v, s1) \<Rightarrow> k v s1)"
proof (cases r)
  case (Pair x s1)
  show ?thesis
  proof (cases x)
    case (Inl e)
    with Pair assms(1) show ?thesis by simp
  next
    case (Inr v)
    with Pair assms(1) have tv: "type_value v" and u: "unchanged s s1"
      by (simp_all add: expr_post_def)
    from assms(2) [OF _ tv] Pair Inr have "expr_post s1 (k v s1)" by simp
    with u have "expr_post s (k v s1)"
      by (auto simp: expr_post_def unchanged_def split: sum.splits)
    with Pair Inr show ?thesis by simp
  qed
qed

lemma expr_post_step:
  assumes "type_value l"
    and "\<And>a b. expr_error (symbol_table s1) (mk a b)"
    and "\<And>l'. type_value l' \<Longrightarrow>
           l' = (if l = PStr ''chunk'' \<and> v = PStr ''fraction'' then PStr ''fraction'' else l) \<Longrightarrow>
           \<not> l' \<noteq> (if l = PStr ''chunk'' \<and> v = PStr ''fraction'' then v
                   else if l = PStr ''fraction'' \<and> v = PStr ''chunk'' then PStr ''fraction'' else v) \<Longrightarrow>
           expr_post s1 (loop l')"
  shows "expr_post s1
          (let left_type' = (if l = PStr ''chunk'' \<and> v = PStr ''fraction'' then PStr ''fraction'' else l);
               right_type' = (if l = PStr ''chunk'' \<and> v = PStr ''fraction'' then v
                  else if l = PStr ''fraction'' \<and> v = PStr ''chunk'' then PStr ''fraction'' else v)
           in if left_type' \<noteq> right_type' then (Inl (mk left_type' right_type'), s1)
              else loop left_type')"
proof -
  define l' where "l' = (if l = PStr ''chunk'' \<and> v = PStr ''fraction'' then PStr ''fraction'' else l)"
  define r' where "r' = (if l = PStr ''chunk'' \<and> v = PStr ''fraction'' then v
                  else if l = PStr ''fraction'' \<and> v = PStr ''chunk'' then PStr ''fraction'' else v)"
  have tv: "type_value l'" using assms(1) by (simp add: l'_def)
  have "expr_post s1 (if l' \<noteq> r' then (Inl (mk l' r'), s1) else loop l')"
  proof (cases "l' \<noteq> r'")
    case True
    then show ?thesis using assms(2) by (simp add: expr_post_def unchanged_def)
  next
    case False
    with assms(3) [OF tv] show ?thesis by (simp add: l'_def r'_def)
  qed
  then show ?thesis unfolding Let_def l'_def r'_def .
qed

lemma expr_post_all:
  "expr_post s (visitExpression e s)"
  "expr_post s (visitAdditiveExpression a s)"
  "type_value l \<Longrightarrow> expr_post s (additive_loop st l ms s)"
  "expr_post s (visitMultiplicativeExpression m s)"
  "type_value l2 \<Longrightarrow> expr_post s (multiplicative_loop st2 l2 ts s)"
  "expr_post s (visitTerm t s)"
  "expr_post s (visitTree tr s)"
  "type_value r \<Longrightarrow> expr_post s (visitChildren r cs s)"
proof (induction e s and a s and st l ms s and m s and st2 l2 ts s and t s and tr s and r cs s rule: expr_induct)
  case (1 a s)
  then show ?case by simp
next
  case (2 start m s)
  then show ?case by simp
next
  case (3 start m m' ms s)
  have "expr_post s (case visitMultiplicativeExpression m s of
        (Inl e, s1) \<Rightarrow> (Inl e, s1)
      | (Inr left_type, s1) \<Rightarrow> additive_loop start left_type (m' # ms) s1)"
    by (rule expr_post_bind [OF "3.IH"(1)]) (rule "3.IH"(2), simp_all)
  then show ?case by (simp del: additive_loop.simps)
next
  case (4 start left_type s)
  then show ?case by (simp add: expr_post_value)
next
  case (5 start left_type m ms s)
  show ?case
    unfolding additive_loop.simps
  proof (rule expr_post_bind [OF "5.IH"(1)])
    fix v s1
    assume r: "visitMultiplicativeExpression m s = (Inr v, s1)" and tv: "type_value v"
    show "expr_post s1
          (let left_type' = if left_type = PStr ''chunk'' \<and> v = PStr ''fraction'' then PStr ''fraction'' else left_type;
               right_type' = if left_type = PStr ''chunk'' \<and> v = PStr ''fraction'' then v
                  else if left_type = PStr ''fraction'' \<and> v = PStr ''chunk'' then PStr ''fraction'' else v
           in if left_type' \<noteq> right_type'
              then (Inl (TypeMismatchAdditive (fst (get_line_info start)) (snd (get_line_info start)) left_type' right_type'), s1)
              else additive_loop start left_type' ms s1)"
    proof (rule expr_post_step [OF "5.prems"])
      show "\<And>a b. expr_error (symbol_table s1)
             (TypeMismatchAdditive (fst (get_line_info start)) (snd (get_line_info start)) a b)"
        by simp
    next
      fix l'
      assume "type_value l'"
        and "l' = (if left_type = PStr ''chunk'' \<and> v = PStr ''fraction'' then PStr ''fraction'' else left_type)"
        and "\<not> l' \<noteq> (if left_type = PStr ''chunk'' \<and> v = PStr ''fraction'' then v
                   else if left_type = PStr ''fraction'' \<and> v = PStr ''chunk'' then PStr ''fraction'' else v)"
      then show "expr_post s1 (additive_loop start l' ms s1)"
        using "5.IH"(2) [OF r [symmetric] refl _ refl] by blast
    qed
  qed
next
  case (6 start t s)
  then show ?case by simp
next
  case (7 start t t' ts s)
  have "expr_post s (case visitTerm t s of
        (Inl e, s1) \<Rightarrow> (Inl e, s1)
      | (Inr left_type, s1) \<Rightarrow> multiplicative_loop start left_type (t' # ts) s1)"
    by (rule expr_post_bind [OF "7.IH"(1)]) (rule "7.IH"(2), simp_all)
  then show ?case by (simp del: multiplicative_loop.simps)
next
  case (8 start left_type s)
  then show ?case by (simp add: expr_post_value)
next
  case (9 start left_type t ts s)
  show ?case
    unfolding multiplicative_loop.simps
  proof (rule expr_post_bind [OF "9.IH"(1)])
    fix v s1
    assume r: "visitTerm t s = (Inr v, s1)" and tv: "type_value v"
    show "expr_post s1
          (let left_type' = if left_type = PStr ''chunk'' \<and> v = PStr ''fraction'' then PStr ''fraction'' else left_type;
               right_type' = if left_type = PStr ''chunk'' \<and> v = PStr ''fraction'' then v
                  else if left_type = PStr ''fraction'' \<and> v = PStr ''chunk'' then PStr ''fraction'' else v
           in if left_type' \<noteq> right_type'
              then (Inl (TypeMismatchMultiplicative (fst (get_line_info start)) (snd (get_line_info start)) left_type' right_type'), s1)
              else multiplicative_loop start left_type' ts s1)"
    proof (rule expr_post_step [OF "9.prems"])
      show "\<And>a b. expr_error (symbol_table s1)
             (TypeMismatchMultiplicative (fst (get_line_info start)) (snd (get_line_info start)) a b)"
        by simp
    next
      fix l'
      assume "type_value l'"
        and "l' = (if left_type = PStr ''chunk'' \<and> v = PStr ''fraction'' then PStr ''fraction'' else left_type)"
        and "\<not> l' \<noteq> (if left_type = PStr ''chunk'' \<and> v = PStr ''fraction'' then v
                   else if left_type = PStr ''fraction'' \<and> v = PStr ''chunk'' then PStr ''fraction'' else v)"
      then show "expr_post s1 (multiplicative_loop start l' ts s1)"
        using "9.IH"(2) [OF r [symmetric] refl _ refl] by blast
    qed
  qed
next
  case (10 start var_name s)
  show ?case
    by (cases "map_of (symbol_table s) var_name")
       (auto simp: expr_post_def unchanged_def markVariableAsUsed_def)
next
  case (11 l s)
  show ?case by (cases l) (simp_all add: expr_post_def unchanged_def)
next
  case (12 children s)
  then show ?case by simp
next
  case (13 children s)
  then show ?case by simp
next
  case (14 e s)
  then show ?case by simp
next
  case (15 node_text s)
  show ?case by (simp add: expr_post_def unchanged_def)
next
  case (16 s)
  show ?case by (simp add: expr_post_value)
next
  case (17 children s)
  then show ?case by simp
next
  case (18 e s)
  then show ?case by simp
next
  case (19 result_so_far s)
  then show ?case by (simp add: expr_post_value)
next
  case (20 result_so_far c cs s)
  have "expr_post s (case visitTree c s of
        (Inl e, s1) \<Rightarrow> (Inl e, s1)
      | (Inr childResult, s1) \<Rightarrow> visitChildren childResult cs s1)"
    by (rule expr_post_bind [OF "20.IH"(1)]) (rule "20.IH"(2), simp_all)
  then show ?case by simp
qed

section \<open>Dictionaries\<close>

lemma dict_set_keys:
  "map fst (dict_set k v d) = (if k \<in> set (map fst d) then map fst d else map fst d @ [k])"
  by (induction d) auto

lemma dict_set_distinct: "distinct (map fst d) \<Longrightarrow> distinct (map fst (dict_set k v d))"
  by (simp add: dict_set_keys)

lemma map_of_dict_set: "map_of (dict_set k v d) = (map_of d)(k \<mapsto> v)"
  by (induction d) auto

lemma dict_set_fresh: "map_of d k = None \<Longrightarrow> dict_set k v d = d @ [(k, v)]"
  by (induction d) (auto split: if_splits)

section \<open>Statements: invariants of every visit\<close>

lemmas stmt_induct =
  visitStatement_visitStatements_visitMethodDeclaration_visitMethods_visitClassDeclaration.induct

lemma step_ok_refl: "step_ok s s"
  by (simp add: step_ok_def)

lemma step_ok_trans: "step_ok s s1 \<Longrightarrow> step_ok s1 s2 \<Longrightarrow> step_ok s s2"
  by (simp add: step_ok_def)

lemma unchanged_step_ok: "unchanged s s' \<Longrightarrow> step_ok s s'"
  by (simp add: step_ok_def unchanged_def)

lemma step_ok_bind:
  assumes "step_ok s (snd r)"
    and "\<And>v s1. r = (Inr v, s1) \<Longrightarrow> step_ok s1 (snd (k v s1))"
  shows "step_ok s (snd (case r of (Inl e, s1) \<Rightarrow> (Inl e, s1) | (Inr v, s1) \<Rightarrow> k v s1))"
proof (cases r)
  case (Pair x s1)
  show ?thesis
  proof (cases x)
    case (Inl e)
    with Pair assms(1) show ?thesis by simp
  next
    case (Inr v)
    with Pair assms show ?thesis by (auto intro: step_ok_trans)
  qed
qed

lemma visitExpression_step_ok: "step_ok s (snd (visitExpression e s))"
  by (rule unchanged_step_ok) (rule expr_post_unchanged, rule expr_post_all)

lemma visitShowStatement_step_ok: "step_ok s (snd (visitShowStatement start e s))"
  using visitExpression_step_ok [of s e]
  by (auto simp: visitShowStatement_def step_ok_def split: prod.splits sum.splits)

lemma visitInitializer_unchanged:
  "visitInitializer e c s = Some r \<Longrightarrow> expr_post s r"
  by (auto simp: visitInitializer_def expr_post_all split: option.splits)

lemma visitVariableDeclaration_step_ok:
  "step_ok s (snd (visitVariableDeclaration start var_name var_type e c s))"
proof -
  let ?s1 = "s\<lparr>symbol_table := dict_set var_name (var_type, fst (get_line_info start)) (symbol_table s)\<rparr>"
  have a: "step_ok s ?s1" by (simp add: step_ok_def dict_set_distinct)
  have b: "step_ok s s2" if "visitInitializer e c ?s1 = Some (r, s2)" for r s2
    using visitInitializer_unchanged [OF that] a 
    by (auto simp: expr_post_def intro: step_ok_trans unchanged_step_ok)
  show ?thesis
    using a b
    by (auto simp: visitVariableDeclaration_def step_ok_refl split: option.splits prod.splits sum.splits)
qed

lemma visitAssignment_step_ok: "step_ok s (snd (visitAssignment start var_name e s))"
proof -
  let ?s1 = "s\<lparr>used_variables := insert var_name (used_variables s)\<rparr>"
  have a: "step_ok s ?s1" by (simp add: step_ok_def)
  have "step_ok ?s1 (snd (visitExpression e ?s1))" by (rule visitExpression_step_ok)
  with a have b: "step_ok s (snd (visitExpression e ?s1))" by (rule step_ok_trans)
  show ?thesis
    using b
    by (auto simp: visitAssignment_def step_ok_refl split: option.splits prod.splits sum.splits bool.splits)
qed

lemma add_parameters_step_ok: "step_ok s (snd (add_parameters start params s))"
proof (induction params arbitrary: s)
  case Nil
  show ?case by (simp add: step_ok_refl)
next
  case (Cons param params)
  show ?case
  proof (cases start)
    case None
    then show ?thesis by (simp add: step_ok_refl)
  next
    case (Some t)
    have "step_ok s
            (s\<lparr>symbol_table :=
                 dict_set (fst param) (snd param, Some (fst t)) (symbol_table s)\<rparr>)"
      by (simp add: step_ok_def dict_set_distinct)
    with Cons.IH Some show ?thesis by (auto intro: step_ok_trans)
  qed
qed

lemma add_fields_step_ok: "step_ok s (snd (add_fields start fs s))"
proof (induction fs arbitrary: s)
  case Nil
  show ?case by (simp add: step_ok_refl)
next
  case (Cons field rest)
  show ?case
  proof (cases "snd field")
    case Missing
    then show ?thesis by (simp add: step_ok_refl)
  next
    case (Returns var_type)
    show ?thesis
    proof (cases start)
      case None
      with Returns show ?thesis by (simp add: step_ok_refl)
    next
      case (Some t)
      have "step_ok s
              (s\<lparr>symbol_table :=
                   dict_set (fst field) (var_type, Some (fst t)) (symbol_table s)\<rparr>)"
        by (simp add: step_ok_def dict_set_distinct)
      with Cons.IH Some Returns show ?thesis by (auto intro: step_ok_trans)
    qed
  qed
qed

lemma step_ok_if:
  "(c \<Longrightarrow> step_ok s (snd a)) \<Longrightarrow> (\<not> c \<Longrightarrow> step_ok s (snd b)) \<Longrightarrow> step_ok s (snd (if c then a else b))"
  by simp

lemma step_ok_option:
  "(x = None \<Longrightarrow> step_ok s (snd a)) \<Longrightarrow> (\<And>y. x = Some y \<Longrightarrow> step_ok s (snd (b y)))
     \<Longrightarrow> step_ok s (snd (case x of None \<Rightarrow> a | Some y \<Rightarrow> b y))"
  by (cases x) simp_all

lemma step_ok_prod:
  "(\<And>a b. p = (a, b) \<Longrightarrow> step_ok s (snd (f a b))) \<Longrightarrow> step_ok s (snd (case p of (a, b) \<Rightarrow> f a b))"
  by (cases p) simp

lemma step_ok_accessor:
  "(x = Missing \<Longrightarrow> step_ok s (snd a)) \<Longrightarrow> (\<And>y. x = Returns y \<Longrightarrow> step_ok s (snd (b y)))
     \<Longrightarrow> step_ok s (snd (case x of Missing \<Rightarrow> a | Returns y \<Rightarrow> b y))"
  by (cases x) simp_all

lemma step_ok_here: "step_ok s (snd (x, s))"
  by (simp add: step_ok_refl)

lemma stmt_step_ok:
  "step_ok s (snd (visitStatement st s))"
  "step_ok s (snd (visitStatements sts s))"
  "step_ok s (snd (visitMethodDeclaration md s))"
  "step_ok s (snd (visitMethods mds s))"
  "step_ok s (snd (visitClassDeclaration cd s))"
proof (induction st s and sts s and md s and mds s and cd s rule: stmt_induct)
  case (7 st sts s)
  have "step_ok s
          (snd (case visitStatement st s of
                  (Inl e, s1) \<Rightarrow> (Inl e, s1)
                | (Inr v, s1) \<Rightarrow> visitStatements sts s1))"
    by (rule step_ok_bind [OF "7.IH"(1)]) (rule "7.IH"(2), simp_all)
  then show ?case by simp
next
  case (8 start method_name return_type_call parameters block return_statement s)
  show ?case
    unfolding visitMethodDeclaration.simps
    apply (rule step_ok_accessor)
     apply (rule step_ok_here)
    apply (rule step_ok_bind)
     apply (rule add_parameters_step_ok)
    apply (rule step_ok_if)
     apply (rule step_ok_here)
    apply (rule step_ok_bind)
     apply (rule "8.IH"; simp)
    apply (rule step_ok_option)
     apply (rule step_ok_here)
    apply (rule step_ok_prod)
    apply (rule step_ok_bind)
     apply (rule visitExpression_step_ok)
    apply (rule step_ok_bind)
     apply (rule visitExpression_step_ok)
    apply (rule step_ok_if)
     apply (rule step_ok_here)
    apply (rule step_ok_here)
    done
next
  case (10 md mds s)
  have "step_ok s
          (snd (case visitMethodDeclaration md s of
                  (Inl e, s1) \<Rightarrow> (Inl e, s1)
                | (Inr v, s1) \<Rightarrow> visitMethods mds s1))"
    by (rule step_ok_bind [OF "10.IH"(1)]) (rule "10.IH"(2), simp_all)
  then show ?case by simp
next
  case (11 start class_name superclass_call parent_class class_fields class_methods s)
  show ?case
  proof (cases superclass_call)
    case Missing
    then show ?thesis by (simp add: step_ok_refl)
  next
    case (Returns superclass_name)
    show ?thesis
    proof (cases "map_of (symbol_table s) class_name \<noteq> None")
      case True
      with Returns show ?thesis by (simp add: step_ok_refl)
    next
      case False
      show ?thesis
      proof (cases "inheritance_map s")
        case None
        with Returns False show ?thesis by (simp add: step_ok_refl)
      next
        case (Some m)
        define s1 where
          "s1 = s\<lparr>inheritance_map := Some (dict_set class_name superclass_name m)\<rparr>"
        have u: "step_ok s s1" using Some by (simp add: step_ok_def s1_def)
        show ?thesis
        proof (cases parent_class)
          case parent: (Some parent_text)
          with Returns False Some u show ?thesis by (simp add: s1_def)
        next
          case parent: None
          have "step_ok s1
                  (snd (case add_fields start class_fields s1 of
                          (Inl e, s2) \<Rightarrow> (Inl e, s2)
                        | (Inr v, s2) \<Rightarrow> visitMethods class_methods s2))"
            by (rule step_ok_bind [OF add_fields_step_ok])
               (rule "11.IH" [OF Returns False Some parent], simp_all add: s1_def)
          with u have "step_ok s
                  (snd (case add_fields start class_fields s1 of
                          (Inl e, s2) \<Rightarrow> (Inl e, s2)
                        | (Inr v, s2) \<Rightarrow> visitMethods class_methods s2))"
            by (rule step_ok_trans)
          with Returns False Some parent show ?thesis by (simp add: s1_def)
        qed
      qed
    qed
  qed
qed (simp_all add: step_ok_refl visitShowStatement_step_ok visitVariableDeclaration_step_ok
    visitAssignment_step_ok)

section \<open>Assignment\<close>

text \<open>
  The entry that \<open>visitAssignment\<close> passes as the declared type equals no
  value that an expression can have, and it cannot be hashed: whatever the state, the
  compatibility test raises, and no assignment succeeds.
\<close>

lemma is_type_compatible_entry:
  assumes "type_value v"
  shows "\<exists>err. is_type_compatible (PDict d) v s = Inl err \<and> kind_of err = PythonRuntimeError"
proof -
  from assms have ne: "PDict d \<noteq> v" by (cases v) simp_all
  show ?thesis
  proof (cases "inheritance_map s")
    case None
    with ne show ?thesis by (simp add: is_type_compatible_def)
  next
    case (Some m)
    with ne show ?thesis by (simp add: is_type_compatible_def)
  qed
qed

lemma visitAssignment_never_succeeds:
  "fst (visitAssignment start var_name e s) \<noteq> Inr ()"
proof (cases "map_of (symbol_table s) var_name")
  case None
  then show ?thesis by (simp add: visitAssignment_def)
next
  case (Some d)
  define s1 where "s1 = s\<lparr>used_variables := insert var_name (used_variables s)\<rparr>"
  obtain r s2 where r: "visitExpression e s1 = (r, s2)" by (cases "visitExpression e s1")
  show ?thesis
  proof (cases r)
    case (Inl err)
    with Some r show ?thesis by (simp add: visitAssignment_def s1_def)
  next
    case (Inr v)
    from expr_post_all(1) [of s1 e] r Inr have "type_value v" by (simp add: expr_post_def)
    from is_type_compatible_entry [OF this, of d s2]
    obtain err where "is_type_compatible (PDict d) v s2 = Inl err" by blast
    with Some r Inr show ?thesis by (simp add: visitAssignment_def s1_def)
  qed
qed

text \<open>
  Claim C1.  An assignment to a declared variable succeeds exactly when the type of
  the right-hand side is compatible with the declared type.  The code passes the whole
  symbol-table entry as the declared type and reads an inheritance map that was never
  assigned: the program \<open>$x: chunk = 5\<close>, \<open>$x = 6\<close>, whose two types
  are equal, ends in an \<open>AttributeError\<close>.
\<close>

theorem assignment_of_equal_type_raises:
  "visitProgram
     [VariableDeclaration (Some (1, 0)) ''$x'' ''chunk''
        (Some (literal_at (1, 12) ChunkLiteral)) None,
      Assignment (Some (2, 0)) ''$x'' (literal_at (2, 5) ChunkLiteral)] init
   = (Inl (AttributeError ''inheritance_map''),
      \<lparr>symbol_table = [(''$x'', (''chunk'', Some 1))], used_variables = {''$x''},
       inheritance_map = None, printed = []\<rparr>)"
  by (simp add: visitProgram_def visitVariableDeclaration_def visitAssignment_def
      visitInitializer_def literal_at_def init_def get_line_info_def is_type_compatible_def
      startswith_sigil_def first_class_def rest_class_def)

section \<open>The inheritance map\<close>

text \<open>
  No statement assigns the inheritance map: it is unassigned at the end of every run
  that starts from the fresh state, and no class declaration succeeds.
\<close>

lemma visitClassDeclaration_unassigned:
  assumes "inheritance_map s = None"
  shows "fst (visitClassDeclaration cd s) \<noteq> Inr ()"
proof (cases cd)
  case (ClassDeclaration start class_name superclass_call parent_class class_fields
    class_methods)
  with assms show ?thesis by (cases superclass_call) simp_all
qed

lemma inheritance_map_stays_unassigned:
  "inheritance_map (snd (visitProgram sts init)) = None"
proof -
  have "step_ok init (snd (visitStatements sts init))" by (rule stmt_step_ok)
  then have n: "inheritance_map (snd (visitStatements sts init)) = None"
    by (simp add: step_ok_def init_def)
  obtain r s1 where r: "visitStatements sts init = (r, s1)"
    by (cases "visitStatements sts init")
  with n show ?thesis
    by (cases r) (simp_all add: visitProgram_def)
qed

text \<open>
  Claim C2.  The inheritance map is created empty at the start of a run, so that no
  read or write of it fails.  \<open>__init__\<close> does not assign it: on the fresh
  state the read in \<open>is_type_compatible\<close> raises \<open>AttributeError\<close>,
  and so does the write in \<open>visitClassDeclaration\<close>, where a class declaration
  gets as far as line 163.
\<close>

theorem inheritance_map_never_assigned:
  "inheritance_map init = None \<and>
   is_type_compatible (PStr ''Base'') (PStr ''Sub'') init
     = Inl (AttributeError ''inheritance_map'') \<and>
   visitProgram
     [ClassDeclarationStatement
        (ClassDeclaration (Some (1, 0)) ''Base'' (Returns None) None [] [])] init
     = (Inl (AttributeError ''inheritance_map''), init)"
  by (simp add: visitProgram_def init_def is_type_compatible_def)

section \<open>Numeric promotion\<close>

text \<open>
  Claim C5.  In a binary additive or multiplicative expression, \<open>chunk\<close> with
  \<open>fraction\<close> gives \<open>fraction\<close> in either order; there is no other
  conversion: two operand types that are neither equal nor this pair raise a type
  mismatch that carries both types, as \<open>chunk\<close> with \<open>string\<close> does.
\<close>

theorem numeric_promotion:
  assumes "visitMultiplicativeExpression a s = (Inr l, s1)"
    and "visitMultiplicativeExpression b s1 = (Inr r, s2)"
    and "visitTerm t u = (Inr l', u1)"
    and "visitTerm t' u1 = (Inr r', u2)"
  shows "visitAdditiveExpression (AdditiveExpression start a [b]) s =
           (if (l = PStr ''chunk'' \<and> r = PStr ''fraction'') \<or>
               (l = PStr ''fraction'' \<and> r = PStr ''chunk'')
            then (Inr (PStr ''fraction''), s2)
            else if l = r then (Inr l, s2)
            else (Inl (TypeMismatchAdditive (fst (get_line_info start))
                         (snd (get_line_info start)) l r), s2)) \<and>
         visitMultiplicativeExpression (MultiplicativeExpression start' t [t']) u =
           (if (l' = PStr ''chunk'' \<and> r' = PStr ''fraction'') \<or>
               (l' = PStr ''fraction'' \<and> r' = PStr ''chunk'')
            then (Inr (PStr ''fraction''), u2)
            else if l' = r' then (Inr l', u2)
            else (Inl (TypeMismatchMultiplicative (fst (get_line_info start'))
                         (snd (get_line_info start')) l' r'), u2)) \<and>
         kind_of (TypeMismatchAdditive (fst (get_line_info start))
                    (snd (get_line_info start)) l r) = TypeMismatchError \<and>
         kind_of (TypeMismatchMultiplicative (fst (get_line_info start'))
                    (snd (get_line_info start')) l' r') = TypeMismatchError"
  using assms by (auto simp: Let_def)

theorem numeric_promotion_witness:
  "visitAdditiveExpression
     (AdditiveExpression (Some (1, 0))
        (MultiplicativeExpression (Some (1, 0)) (Literal ChunkLiteral) [])
        [MultiplicativeExpression (Some (1, 4)) (Literal FractionLiteral) []]) init
     = (Inr (PStr ''fraction''), init) \<and>
   visitMultiplicativeExpression
     (MultiplicativeExpression (Some (2, 0)) (Literal ChunkLiteral) [Literal StringLiteral]) init
     = (Inl (TypeMismatchMultiplicative (Some 2) (Some 0) (PStr ''chunk'') (PStr ''string'')),
        init)"
proof -
  have h1: "visitMultiplicativeExpression
      (MultiplicativeExpression (Some (1, 0)) (Literal ChunkLiteral) []) init
      = (Inr (PStr ''chunk''), init)" by simp
  have h2: "visitMultiplicativeExpression
      (MultiplicativeExpression (Some (1, 4)) (Literal FractionLiteral) []) init
      = (Inr (PStr ''fraction''), init)" by simp
  have h3: "visitTerm (Literal ChunkLiteral) init = (Inr (PStr ''chunk''), init)" by simp
  have h4: "visitTerm (Literal StringLiteral) init = (Inr (PStr ''string''), init)" by simp
  from numeric_promotion [OF h1 h2 h3 h4, of "Some (1, 0)" "Some (2, 0)"]
  show ?thesis by (simp add: get_line_info_def)
qed

section \<open>Show statements\<close>

text \<open>
  Claim C8.  A show statement whose operand has the type \<open>none\<close> raises the
  error of showing a none value, with the statement's line and column; for any other
  type it succeeds and prints exactly one record, the output with that type.
\<close>

theorem show_statement:
  assumes "visitExpression e s = (Inr expr_type, s1)"
  shows "visitShowStatement start e s =
           (if expr_type = PStr ''none''
            then (Inl (CannotShowNone (fst (get_line_info start))
                         (snd (get_line_info start))), s1)
            else (Inr (), s1\<lparr>printed := printed s1 @ [Output expr_type]\<rparr>)) \<and>
         kind_of (CannotShowNone (fst (get_line_info start)) (snd (get_line_info start)))
           = InvalidOperationError"
  using assms by (simp add: visitShowStatement_def)

theorem show_statement_witness:
  "visitShowStatement (Some (3, 0)) (variable_at (3, 5) ''$n'')
     \<lparr>symbol_table = [(''$n'', (''none'', Some 1))], used_variables = {},
      inheritance_map = None, printed = []\<rparr>
     = (Inl (CannotShowNone (Some 3) (Some 0)),
        \<lparr>symbol_table = [(''$n'', (''none'', Some 1))], used_variables = {''$n''},
         inheritance_map = None, printed = []\<rparr>) \<and>
   visitShowStatement (Some (1, 0)) (literal_at (1, 5) ChunkLiteral) init
     = (Inr (), init\<lparr>printed := [Output (PStr ''chunk'')]\<rparr>)"
proof -
  have h: "visitExpression (variable_at (3, 5) ''$n'')
     \<lparr>symbol_table = [(''$n'', (''none'', Some 1))], used_variables = {},
      inheritance_map = None, printed = []\<rparr>
     = (Inr (PStr ''none''),
        \<lparr>symbol_table = [(''$n'', (''none'', Some 1))], used_variables = {''$n''},
         inheritance_map = None, printed = []\<rparr>)"
    by (simp add: variable_at_def markVariableAsUsed_def)
  have h': "visitExpression (literal_at (1, 5) ChunkLiteral) init = (Inr (PStr ''chunk''), init)"
    by (simp add: literal_at_def)
  from show_statement [OF h, of "Some (3, 0)"] show_statement [OF h', of "Some (1, 0)"]
  show ?thesis
    by (simp add: get_line_info_def init_def)
qed

section \<open>Variable declarations\<close>

lemma expr_error_kind: "expr_error tbl err \<Longrightarrow> kind_of err \<noteq> InvalidNameError"
  by (cases err) simp_all

lemma visitVariableDeclaration_valid:
  assumes "valid_name var_name" and "map_of (symbol_table s) var_name = None"
    and "s1 = s\<lparr>symbol_table :=
                  dict_set var_name (var_type, fst (get_line_info start)) (symbol_table s)\<rparr>"
  shows "visitVariableDeclaration start var_name var_type e c s =
     (case visitInitializer e c s1 of
        None \<Rightarrow> (Inr (), s1)
      | Some (Inl er, s2) \<Rightarrow> (Inl er, s2)
      | Some (Inr init_type, s2) \<Rightarrow>
          if init_type \<noteq> PStr var_type
          then (Inl (TypeMismatchDeclaration init_type var_type var_name
                       (fst (get_line_info start)) (snd (get_line_info start))), s2)
          else (Inr (), s2))"
  using assms(1,2) unfolding assms(3)
  by (simp add: visitVariableDeclaration_def valid_name_def)

lemma visitVariableDeclaration_table:
  assumes "valid_name var_name" and "map_of (symbol_table s) var_name = None"
  shows "symbol_table (snd (visitVariableDeclaration start var_name var_type e c s))
         = symbol_table s @ [(var_name, (var_type, fst (get_line_info start)))]"
proof -
  define s1 where "s1 = s\<lparr>symbol_table :=
                  dict_set var_name (var_type, fst (get_line_info start)) (symbol_table s)\<rparr>"
  have t: "symbol_table s1 = symbol_table s @ [(var_name, (var_type, fst (get_line_info start)))]"
    using assms(2) by (simp add: s1_def dict_set_fresh)
  note eq = visitVariableDeclaration_valid [OF assms s1_def, of e c]
  show ?thesis
  proof (cases "visitInitializer e c s1")
    case None
    with eq t show ?thesis by simp
  next
    case (Some p)
    obtain r s2 where p: "p = (r, s2)" by (cases p)
    from visitInitializer_unchanged [OF Some] p have "symbol_table s2 = symbol_table s1"
      by (simp add: expr_post_def unchanged_def)
    with eq Some p t show ?thesis by (cases r) simp_all
  qed
qed

lemma visitVariableDeclaration_not_undeclared:
  assumes "valid_name var_name" and "map_of (symbol_table s) var_name = None"
  shows "fst (visitVariableDeclaration start var_name var_type e c s)
         \<noteq> Inl (VariableNotDeclared var_name l co)"
proof -
  define s1 where "s1 = s\<lparr>symbol_table :=
                  dict_set var_name (var_type, fst (get_line_info start)) (symbol_table s)\<rparr>"
  have t: "map_of (symbol_table s1) var_name \<noteq> None"
    by (simp add: s1_def map_of_dict_set)
  note eq = visitVariableDeclaration_valid [OF assms s1_def, of e c]
  show ?thesis
  proof (cases "visitInitializer e c s1")
    case None
    with eq show ?thesis by simp
  next
    case (Some p)
    obtain r s2 where p: "p = (r, s2)" by (cases p)
    show ?thesis
    proof (cases r)
      case (Inl err)
      from visitInitializer_unchanged [OF Some] p Inl have "expr_error (symbol_table s1) err"
        by (simp add: expr_post_def)
      with t have "err \<noteq> VariableNotDeclared var_name l co" by auto
      with eq Some p Inl show ?thesis by simp
    next
      case (Inr v)
      with eq Some p show ?thesis by simp
    qed
  qed
qed

text \<open>
  Claim C6.  A variable declaration with an initializer succeeds only if the type
  inferred for the initializer is the declared type, text for text; any other type,
  such as a subclass of the declared class, raises a type mismatch: the inheritance map
  plays no part in a declaration.
\<close>

theorem declaration_requires_exact_type:
  assumes "visitInitializer e c
             (s\<lparr>symbol_table :=
                  dict_set var_name (var_type, fst (get_line_info start)) (symbol_table s)\<rparr>)
           = Some (Inr init_type, s2)"
  shows "(fst (visitVariableDeclaration start var_name var_type e c s) = Inr ()
            \<longrightarrow> init_type = PStr var_type) \<and>
         (valid_name var_name \<and> map_of (symbol_table s) var_name = None \<and>
          init_type \<noteq> PStr var_type
            \<longrightarrow> visitVariableDeclaration start var_name var_type e c s
                  = (Inl (TypeMismatchDeclaration init_type var_type var_name
                            (fst (get_line_info start)) (snd (get_line_info start))), s2) \<and>
                kind_of (TypeMismatchDeclaration init_type var_type var_name
                            (fst (get_line_info start)) (snd (get_line_info start)))
                  = TypeMismatchError)"
  using assms by (simp add: visitVariableDeclaration_def valid_name_def)

theorem declaration_requires_exact_type_witness:
  "visitVariableDeclaration (Some (3, 0)) ''$b'' ''Base'' (Some (variable_at (3, 11) ''$s'')) None
     \<lparr>symbol_table = [(''$s'', (''Sub'', Some 1))], used_variables = {},
      inheritance_map = Some [(''Base'', None), (''Sub'', Some 0)], printed = []\<rparr>
   = (Inl (TypeMismatchDeclaration (PStr ''Sub'') ''Base'' ''$b'' (Some 3) (Some 0)),
      \<lparr>symbol_table = [(''$s'', (''Sub'', Some 1)), (''$b'', (''Base'', Some 3))],
       used_variables = {''$s''},
       inheritance_map = Some [(''Base'', None), (''Sub'', Some 0)], printed = []\<rparr>)"
proof -
  let ?s = "\<lparr>symbol_table = [(''$s'', (''Sub'', Some 1))], used_variables = {},
      inheritance_map = Some [(''Base'', None), (''Sub'', Some (0::nat))], printed = []\<rparr>"
  let ?s2 = "\<lparr>symbol_table = [(''$s'', (''Sub'', Some 1)), (''$b'', (''Base'', Some 3))],
       used_variables = {''$s''},
       inheritance_map = Some [(''Base'', None), (''Sub'', Some (0::nat))], printed = []\<rparr>"
  have h: "visitInitializer (Some (variable_at (3, 11) ''$s'')) None
             (?s\<lparr>symbol_table :=
                  dict_set ''$b'' (''Base'', fst (get_line_info (Some (3, 0)))) (symbol_table ?s)\<rparr>)
           = Some (Inr (PStr ''Sub''), ?s2)"
    by (simp add: visitInitializer_def variable_at_def get_line_info_def markVariableAsUsed_def)
  have v: "valid_name ''$b''"
    by (simp add: valid_name_def startswith_sigil_def first_class_def rest_class_def)
  from declaration_requires_exact_type [OF h] v show ?thesis
    by (simp add: get_line_info_def)
qed

text \<open>
  Claim C9.  Declaring a variable whose name does not start with \<open>$\<close>, or whose
  remainder after it does not match the pattern, raises an invalid-name error with the
  declaration's line and column; a name that satisfies both never raises one.
\<close>

theorem name_checks:
  "(\<not> startswith_sigil var_name \<longrightarrow>
      visitVariableDeclaration start var_name var_type e c s
        = (Inl (InvalidNameSigil var_name (fst (get_line_info start))
                  (snd (get_line_info start))), s)) \<and>
   (startswith_sigil var_name \<and> \<not> valid_variable_pattern_match (drop 1 var_name) \<longrightarrow>
      visitVariableDeclaration start var_name var_type e c s
        = (Inl (InvalidNamePattern var_name (fst (get_line_info start))
                  (snd (get_line_info start))), s)) \<and>
   kind_of (InvalidNameSigil var_name (fst (get_line_info start)) (snd (get_line_info start)))
     = InvalidNameError \<and>
   kind_of (InvalidNamePattern var_name (fst (get_line_info start)) (snd (get_line_info start)))
     = InvalidNameError \<and>
   (startswith_sigil var_name \<and> valid_variable_pattern_match (drop 1 var_name) \<longrightarrow>
      (\<forall>err. fst (visitVariableDeclaration start var_name var_type e c s) = Inl err
         \<longrightarrow> kind_of err \<noteq> InvalidNameError))"
proof -
  let ?s1 = "s\<lparr>symbol_table :=
                  dict_set var_name (var_type, fst (get_line_info start)) (symbol_table s)\<rparr>"
  have init_err: "kind_of err \<noteq> InvalidNameError"
    if "visitInitializer e c ?s1 = Some (Inl err, s2)" for err s2
    using visitInitializer_unchanged [OF that] by (auto simp: expr_post_def dest: expr_error_kind)
  have "kind_of err \<noteq> InvalidNameError"
    if "startswith_sigil var_name" "valid_variable_pattern_match (drop 1 var_name)"
      and "fst (visitVariableDeclaration start var_name var_type e c s) = Inl err" for err
    using that init_err
    by (auto simp: visitVariableDeclaration_def split: if_splits option.splits prod.splits sum.splits)
  then show ?thesis
    by (simp add: visitVariableDeclaration_def)
qed

theorem name_checks_witness:
  "visitVariableDeclaration (Some (1, 0)) ''x'' ''chunk'' None None init
     = (Inl (InvalidNameSigil ''x'' (Some 1) (Some 0)), init) \<and>
   visitVariableDeclaration (Some (2, 0)) ''$1a'' ''chunk'' None None init
     = (Inl (InvalidNamePattern ''$1a'' (Some 2) (Some 0)), init) \<and>
   fst (visitVariableDeclaration (Some (3, 0)) ''$x_1'' ''chunk''
          (Some (literal_at (3, 14) ChunkLiteral)) None init) = Inr ()"
proof -
  have a: "\<not> startswith_sigil ''x''" by (simp add: startswith_sigil_def)
  have b: "startswith_sigil ''$1a'' \<and> \<not> valid_variable_pattern_match (drop 1 ''$1a'')"
    by (simp add: startswith_sigil_def first_class_def)
  have c: "startswith_sigil ''$x_1'' \<and> valid_variable_pattern_match (drop 1 ''$x_1'')"
    by (simp add: startswith_sigil_def first_class_def rest_class_def)
  have d: "fst (visitVariableDeclaration (Some (3, 0)) ''$x_1'' ''chunk''
          (Some (literal_at (3, 14) ChunkLiteral)) None init) = Inr ()"
    using c by (simp add: visitVariableDeclaration_def visitInitializer_def literal_at_def init_def)
  from name_checks [of "''x''" "Some (1, 0)" "''chunk''" None None init] a
  have 1: "visitVariableDeclaration (Some (1, 0)) ''x'' ''chunk'' None None init
     = (Inl (InvalidNameSigil ''x'' (Some 1) (Some 0)), init)"
    by (simp add: get_line_info_def)
  from name_checks [of "''$1a''" "Some (2, 0)" "''chunk''" None None init] b
  have 2: "visitVariableDeclaration (Some (2, 0)) ''$1a'' ''chunk'' None None init
     = (Inl (InvalidNamePattern ''$1a'' (Some 2) (Some 0)), init)"
    by (simp add: get_line_info_def)
  from 1 2 d show ?thesis by simp
qed


text \<open>
  Claim C10.  The entry is in the symbol table before the initializer is visited: an
  initializer that refers to the variable being declared raises no undeclared-variable
  error for it and marks it used, and whatever the outcome of the declaration (a type
  mismatch included), the entry stays in the table.
\<close>

theorem declaration_inserts_before_initializer:
  assumes "valid_name var_name" and "map_of (symbol_table s) var_name = None"
  shows "visitVariableDeclaration start var_name var_type (Some (variable_at tok var_name)) c s
           = (Inr (),
              s\<lparr>symbol_table :=
                   symbol_table s @ [(var_name, (var_type, fst (get_line_info start)))],
                 used_variables := insert var_name (used_variables s)\<rparr>) \<and>
         (\<forall>l co. fst (visitVariableDeclaration start var_name var_type e c s)
                   \<noteq> Inl (VariableNotDeclared var_name l co)) \<and>
         symbol_table (snd (visitVariableDeclaration start var_name var_type e c s))
           = symbol_table s @ [(var_name, (var_type, fst (get_line_info start)))] \<and>
         map_of (symbol_table (snd (visitVariableDeclaration start var_name var_type e c s)))
           var_name = Some (var_type, fst (get_line_info start))"
proof -
  have a': "visitVariableDeclaration start var_name var_type (Some (variable_at tok var_name)) c s
           = (Inr (),
              s\<lparr>symbol_table :=
                   dict_set var_name (var_type, fst (get_line_info start)) (symbol_table s),
                 used_variables := insert var_name (used_variables s)\<rparr>)"
    using assms
    by (simp add: visitVariableDeclaration_def valid_name_def visitInitializer_def
        variable_at_def map_of_dict_set markVariableAsUsed_def)
  have f: "dict_set var_name (var_type, fst (get_line_info start)) (symbol_table s)
        = symbol_table s @ [(var_name, (var_type, fst (get_line_info start)))]"
    using assms(2) by (rule dict_set_fresh)
  have a: "visitVariableDeclaration start var_name var_type (Some (variable_at tok var_name)) c s
           = (Inr (),
              s\<lparr>symbol_table :=
                   symbol_table s @ [(var_name, (var_type, fst (get_line_info start)))],
                 used_variables := insert var_name (used_variables s)\<rparr>)"
    using a' unfolding f .
  have b: "\<forall>l co. fst (visitVariableDeclaration start var_name var_type e c s)
                   \<noteq> Inl (VariableNotDeclared var_name l co)"
    using visitVariableDeclaration_not_undeclared [OF assms] by blast
  note t = visitVariableDeclaration_table [OF assms, of start var_type e c]
  have "map_of (dict_set var_name (var_type, fst (get_line_info start)) (symbol_table s)) var_name
        = Some (var_type, fst (get_line_info start))"
    by (simp add: map_of_dict_set)
  then have d: "map_of (symbol_table (snd (visitVariableDeclaration start var_name var_type e c s)))
           var_name = Some (var_type, fst (get_line_info start))"
    unfolding t f .
  from a b t d show ?thesis by (intro conjI)
qed

theorem declaration_inserts_before_initializer_witness:
  "visitVariableDeclaration (Some (1, 0)) ''$x'' ''chunk'' (Some (variable_at (1, 12) ''$x'')) None init
     = (Inr (), \<lparr>symbol_table = [(''$x'', (''chunk'', Some 1))], used_variables = {''$x''},
                 inheritance_map = None, printed = []\<rparr>) \<and>
   visitVariableDeclaration (Some (2, 0)) ''$y'' ''string'' (Some (literal_at (2, 13) ChunkLiteral)) None init
     = (Inl (TypeMismatchDeclaration (PStr ''chunk'') ''string'' ''$y'' (Some 2) (Some 0)),
        \<lparr>symbol_table = [(''$y'', (''string'', Some 2))], used_variables = {},
         inheritance_map = None, printed = []\<rparr>) \<and>
   map_of (symbol_table (snd (visitVariableDeclaration (Some (2, 0)) ''$y'' ''string''
       (Some (literal_at (2, 13) ChunkLiteral)) None init))) ''$y'' = Some (''string'', Some 2)"
proof -
  have vx: "valid_name ''$x''"
    by (simp add: valid_name_def startswith_sigil_def first_class_def rest_class_def)
  have vy: "valid_name ''$y''"
    by (simp add: valid_name_def startswith_sigil_def first_class_def rest_class_def)
  have n: "map_of (symbol_table init) ''$x'' = None" "map_of (symbol_table init) ''$y'' = None"
    by (simp_all add: init_def)
  have e: "visitVariableDeclaration (Some (2, 0)) ''$y'' ''string'' (Some (literal_at (2, 13) ChunkLiteral)) None init
     = (Inl (TypeMismatchDeclaration (PStr ''chunk'') ''string'' ''$y'' (Some 2) (Some 0)),
        \<lparr>symbol_table = [(''$y'', (''string'', Some 2))], used_variables = {},
         inheritance_map = None, printed = []\<rparr>)"
    using vy by (simp add: visitVariableDeclaration_def valid_name_def visitInitializer_def
        literal_at_def init_def get_line_info_def)
  from declaration_inserts_before_initializer [OF vx n(1), of "Some (1, 0)" "''chunk''" "(1, 12)" None]
  have 1: "visitVariableDeclaration (Some (1, 0)) ''$x'' ''chunk'' (Some (variable_at (1, 12) ''$x'')) None init
     = (Inr (), \<lparr>symbol_table = [(''$x'', (''chunk'', Some 1))], used_variables = {''$x''},
                 inheritance_map = None, printed = []\<rparr>)"
    by (simp add: init_def get_line_info_def)
  from declaration_inserts_before_initializer [OF vy n(2), of "Some (2, 0)" "''string''" _ _ "Some (literal_at (2, 13) ChunkLiteral)"]
  have 3: "map_of (symbol_table (snd (visitVariableDeclaration (Some (2, 0)) ''$y'' ''string''
       (Some (literal_at (2, 13) ChunkLiteral)) None init))) ''$y'' = Some (''string'', Some 2)"
    by (simp add: get_line_info_def init_def)
  from 1 e 3 show ?thesis by (intro conjI)
qed

section \<open>Redeclaration\<close>

text \<open>
  A variable declaration stores its name, so a second declaration of the same variable
  is rejected.
\<close>

lemma variable_redeclaration_rejected:
  assumes "valid_name var_name" and "map_of (symbol_table s) var_name \<noteq> None"
  shows "visitVariableDeclaration start var_name var_type e c s
         = (Inl (VariableAlreadyDeclared var_name), s)"
  using assms by (simp add: visitVariableDeclaration_def valid_name_def)

lemma second_variable_declaration_rejected:
  assumes "visitVariableDeclaration start var_name var_type e c s = (Inr (), s1)"
  shows "visitVariableDeclaration start' var_name var_type' e' c' s1
         = (Inl (VariableAlreadyDeclared var_name), s1)"
proof -
  from assms have a: "startswith_sigil var_name"
    by (cases "startswith_sigil var_name") (simp_all add: visitVariableDeclaration_def)
  with assms have b: "valid_variable_pattern_match (drop 1 var_name)"
    by (cases "valid_variable_pattern_match (drop 1 var_name)")
       (simp_all add: visitVariableDeclaration_def)
  with a assms have n: "map_of (symbol_table s) var_name = None"
    by (cases "map_of (symbol_table s) var_name = None")
       (simp_all add: visitVariableDeclaration_def)
  from a b have v: "valid_name var_name" by (simp add: valid_name_def)
  from visitVariableDeclaration_table [OF v n, of start var_type e c] assms
  have "symbol_table s1 = symbol_table s @ [(var_name, (var_type, fst (get_line_info start)))]"
    by simp
  with n have "map_of (symbol_table s1) var_name \<noteq> None" by (simp add: map_add_def)
  with v show ?thesis by (rule variable_redeclaration_rejected)
qed

text \<open>
  A method declaration reads its return type first, by \<open>type()\<close>: on the
  contexts of the generated parser it raises there, in every state, whether or not the
  name is a key of the symbol table.
\<close>

lemma visitMethodDeclaration_type_missing:
  "visitMethodDeclaration
     (MethodDeclaration start method_name Missing parameters block return_statement) s
   = (Inl (AttributeError ''type''), s)"
  by simp


text \<open>
  Past that call (a context class that defines \<open>type\<close>), the name of a method
  is tested and never stored: a method without parameters and body leaves the state as
  it was.
\<close>

lemma method_name_never_stored:
  "visitMethodDeclaration
     (MethodDeclaration start method_name (Returns return_type) [] [] None) s
   = (if map_of (symbol_table s) method_name \<noteq> None
      then (Inl (MethodAlreadyDeclared method_name (fst (get_line_info start))
                   (snd (get_line_info start))), s)
      else (Inr (), s))"
  by simp

text \<open>
  Claim C4.  The second of two declarations of one name fails with a redeclaration
  error, for variables, methods and classes.  For methods the code does not get there:
  the program of two declarations of the method \<open>f\<close> ends at the first one, in
  the \<open>AttributeError\<close> of line 125, which is no redeclaration error.
\<close>

theorem method_redeclaration_raises_attribute_error:
  "visitProgram
     [MethodDeclarationStatement
        (MethodDeclaration (Some (1, 0)) ''f'' Missing [] []
           (Some (Some (1, 20), literal_at (1, 27) ChunkLiteral))),
      MethodDeclarationStatement
        (MethodDeclaration (Some (2, 0)) ''f'' Missing [] []
           (Some (Some (2, 20), literal_at (2, 27) ChunkLiteral)))] init
   = (Inl (AttributeError ''type''), init) \<and>
   kind_of (AttributeError ''type'') = PythonRuntimeError"
  by (simp add: visitProgram_def)

section \<open>The keys of the symbol table\<close>

lemma appended_refl: "symbol_table s' = symbol_table s \<Longrightarrow> appended s s'"
  by (simp add: appended_def)



lemma visitVariableDeclaration_appended:
  "appended s (snd (visitVariableDeclaration start var_name var_type e c s))"
proof (cases "valid_name var_name \<and> map_of (symbol_table s) var_name = None")
  case True
  then have v: "valid_name var_name" and n: "map_of (symbol_table s) var_name = None" by simp_all
  from visitVariableDeclaration_table [OF v n, of start var_type e c] v n
  show ?thesis by (simp add: appended_def)
next
  case False
  then have "snd (visitVariableDeclaration start var_name var_type e c s) = s"
    by (auto simp: visitVariableDeclaration_def valid_name_def)
  then show ?thesis by (simp add: appended_refl)
qed










text \<open>
  Past the call of \<open>type()\<close> (a context class that defines it), the parameter
  loop stores each parameter with no check: after \<open>$x: chunk\<close>, the method
  \<open>f($x: string)\<close> would overwrite the entry of \<open>$x\<close>.
\<close>

lemma parameter_loop_unchecked:
  "visitStatement
     (MethodDeclarationStatement
        (MethodDeclaration (Some (2, 0)) ''f'' (Returns ''chunk'') [(''$x'', ''string'')] [] None))
     \<lparr>symbol_table = [(''$x'', (''chunk'', Some 1))], used_variables = {},
      inheritance_map = None, printed = []\<rparr>
   = (Inr (),
      \<lparr>symbol_table = [(''$x'', (''string'', Some 2))], used_variables = {},
       inheritance_map = None, printed = []\<rparr>)"
  by simp



section \<open>The report of unused variables\<close>

lemma count_warnings_absent:
  "k \<notin> fst ` set xs \<Longrightarrow>
   count_list (map (\<lambda>(var, info). Warning var (snd info))
                 (filter (\<lambda>(var, info). var \<notin> U) xs)) (Warning k l) = 0"
  by (induction xs) (auto split: prod.splits)

lemma count_warnings:
  "distinct (map fst xs) \<Longrightarrow>
   count_list (map (\<lambda>(var, info). Warning var (snd info))
                 (filter (\<lambda>(var, info). var \<notin> U) xs)) (Warning k l)
   = (if k \<notin> U \<and> (\<exists>ty. map_of xs k = Some (ty, l)) then 1 else 0)"
proof (induction xs)
  case Nil
  show ?case by simp
next
  case (Cons x xs)
  obtain k' ty' l' where x: "x = (k', (ty', l'))" by (cases x) auto
  show ?case
  proof (cases "k' = k")
    case True
    with Cons.prems x have "k \<notin> fst ` set xs" by auto
    from count_warnings_absent [OF this, of U l] True x show ?thesis by auto
  next
    case False
    with Cons x show ?thesis by auto
  qed
qed

text \<open>
  Claim C7.  When the statements raise nothing, \<open>visitProgram\<close> prints, after
  them, the warnings of the symbol-table entries whose key is not in the used set, in
  the table's order: exactly one warning, with the name and the recorded line, for each
  such entry, and none for a used name.  The outcome of the run is that of its
  statements.
\<close>

theorem unused_variable_report:
  assumes "distinct (map fst (symbol_table s))"
    and "visitStatements sts s = (r, s1)"
  shows "visitProgram sts s =
           (case r of
              Inl e \<Rightarrow> (Inl e, s1)
            | Inr u \<Rightarrow> (Inr (), s1\<lparr>printed := printed s1 @ unused_warnings s1\<rparr>)) \<and>
         fst (visitProgram sts s) = r \<and>
         unused_warnings s1 =
           map (\<lambda>(var, info). Warning var (snd info))
             (filter (\<lambda>(var, info). var \<notin> used_variables s1) (symbol_table s1)) \<and>
         (\<forall>k l. count_list (unused_warnings s1) (Warning k l) =
            (if k \<notin> used_variables s1 \<and> (\<exists>ty. map_of (symbol_table s1) k = Some (ty, l))
             then 1 else 0))"
proof -
  have "step_ok s (snd (visitStatements sts s))" by (rule stmt_step_ok)
  with assms have d: "distinct (map fst (symbol_table s1))" by (simp add: step_ok_def)
  have a: "visitProgram sts s =
           (case r of
              Inl e \<Rightarrow> (Inl e, s1)
            | Inr u \<Rightarrow> (Inr (), s1\<lparr>printed := printed s1 @ unused_warnings s1\<rparr>))"
    using assms(2) by (simp add: visitProgram_def split: sum.splits)
  then have b: "fst (visitProgram sts s) = r" by (cases r) simp_all
  have c: "\<forall>k l. count_list (unused_warnings s1) (Warning k l) =
            (if k \<notin> used_variables s1 \<and> (\<exists>ty. map_of (symbol_table s1) k = Some (ty, l))
             then 1 else 0)"
    unfolding unused_warnings_def using count_warnings [OF d] by blast
  from a b c show ?thesis by (simp add: unused_warnings_def)
qed

theorem unused_variable_report_witness:
  "visitProgram
     [VariableDeclaration (Some (1, 0)) ''$x'' ''chunk'' (Some (literal_at (1, 12) ChunkLiteral)) None,
      ShowStatement (Some (2, 0)) (variable_at (2, 5) ''$x''),
      VariableDeclaration (Some (3, 0)) ''$y'' ''string'' (Some (literal_at (3, 13) StringLiteral)) None]
     init
   = (Inr (),
      \<lparr>symbol_table = [(''$x'', (''chunk'', Some 1)), (''$y'', (''string'', Some 3))],
       used_variables = {''$x''}, inheritance_map = None,
       printed = [Output (PStr ''chunk''), Warning ''$y'' (Some 3)]\<rparr>)"
proof -
  let ?p = "[VariableDeclaration (Some (1, 0)) ''$x'' ''chunk'' (Some (literal_at (1, 12) ChunkLiteral)) None,
      ShowStatement (Some (2, 0)) (variable_at (2, 5) ''$x''),
      VariableDeclaration (Some (3, 0)) ''$y'' ''string'' (Some (literal_at (3, 13) StringLiteral)) None]"
  let ?s1 = "\<lparr>symbol_table = [(''$x'', (''chunk'', Some 1)), (''$y'', (''string'', Some 3))],
       used_variables = {''$x''}, inheritance_map = None,
       printed = [Output (PStr ''chunk'')]\<rparr>"
  have d: "distinct (map fst (symbol_table init))" by (simp add: init_def)
  have r: "visitStatements ?p init = (Inr (), ?s1)"
    by (simp add: visitVariableDeclaration_def visitShowStatement_def
      visitInitializer_def literal_at_def variable_at_def init_def get_line_info_def
      startswith_sigil_def first_class_def rest_class_def markVariableAsUsed_def)
  from unused_variable_report [OF d r] show ?thesis
    by (simp add: unused_warnings_def)
qed

end
